theory Spec2Isabelle
  imports Complex_Main "HOL-Library.Multiset" "HOL-Library.Word"
begin

chapter \<open>SSD evaluation: metrics library, preprocessing selector, evaluation driver\<close>

text \<open>
  A shallow embedding of \<^verbatim>\<open>tf_extended/metrics.py\<close>,
  \<^verbatim>\<open>preprocessing/preprocessing_factory.py\<close> and the control skeleton of
  \<^verbatim>\<open>eval_ssd_network.py\<close>.

  Conventions of the embedding.
  \<^item> A one-dimensional tensor is the list of its elements; \<^verbatim>\<open>tf.reshape(t, [-1])\<close> keeps
    the row-major element order, so a tensor of any rank is given by its flattened list.
  \<^item> \<^verbatim>\<open>float32\<close> values are idealised as \<^typ>\<open>real\<close> numbers: rounding, infinities and
    NaN are not modelled. The one place where the runtime produces an infinity from finite
    data (the minimum of an empty tensor) is modelled by \<^term>\<open>None\<close>.
  \<^item> \<^verbatim>\<open>int64\<close> values are \<^typ>\<open>64 word\<close>, read as signed numbers.
  \<^item> An exception is a value \<^term>\<open>Inl e\<close> of a sum type; it ends the computation.
\<close>

section \<open>Errors\<close>

datatype error =
    ValueError string
  | InvalidArgumentError
  | ZeroDivisionError

section \<open>Metrics library\<close>

subsection \<open>Safe division\<close>

text \<open>
  \<^verbatim>\<open>_safe_div(numerator, denominator)\<close> is
  \<^verbatim>\<open>tf.where(greater(denominator, 0), divide(numerator, denominator), zeros_like(numerator))\<close>.
  \<^term>\<open>safe_div\<close> is the selection on one element. The two call sites of the source use
  it with a denominator of the numerator's shape (\<^term>\<open>safe_div_vec\<close>, for precision)
  and with a scalar denominator (\<^term>\<open>safe_div_scalar\<close>, for recall): there the scalar
  condition selects the whole quotient tensor or the whole zero tensor.
\<close>

definition safe_div :: "real \<Rightarrow> real \<Rightarrow> real" where
  "safe_div numerator denominator =
     (if denominator > 0 then numerator / denominator else 0)"

definition safe_div_vec :: "real list \<Rightarrow> real list \<Rightarrow> real list" where
  "safe_div_vec numerator denominator = map2 safe_div numerator denominator"

definition safe_div_scalar :: "real list \<Rightarrow> real \<Rightarrow> real list" where
  "safe_div_scalar numerator denominator =
     (if denominator > 0 then map (\<lambda>x. x / denominator) numerator
      else map (\<lambda>x. 0) numerator)"

subsection \<open>Tensor primitives\<close>

text \<open>
  \<^verbatim>\<open>tf.nn.top_k(scores, k=tf.size(scores), sorted=True)\<close>: all entries in descending
  order together with their indices; of two equal entries the one with the lower index
  comes first, which is what the stable \<^term>\<open>sort_key\<close> does on the index list.
\<close>

definition top_k :: "real list \<Rightarrow> real list \<times> nat list" where
  "top_k scores =
     (let idxes = sort_key (\<lambda>i. - (scores ! i)) [0..<length scores]
      in (map (\<lambda>i. scores ! i) idxes, idxes))"

text \<open>\<^verbatim>\<open>tf.gather\<close> on the CPU fails on an index outside the tensor.\<close>

definition gather :: "'a list \<Rightarrow> nat list \<Rightarrow> error + 'a list" where
  "gather params indices =
     (if list_all (\<lambda>i. i < length params) indices
      then Inr (map (\<lambda>i. params ! i) indices)
      else Inl InvalidArgumentError)"

fun cumsum_from :: "real \<Rightarrow> real list \<Rightarrow> real list" where
  "cumsum_from acc [] = []"
| "cumsum_from acc (x # xs) = (acc + x) # cumsum_from (acc + x) xs"

definition cumsum :: "real list \<Rightarrow> real list" where
  "cumsum xs = cumsum_from 0 xs"

text \<open>
  \<^verbatim>\<open>tf.boolean_mask(tensor, mask)\<close> for one-dimensional arguments: the mask must have the
  tensor's shape; the entries under a true mask bit are kept, in order.
\<close>

definition boolean_mask :: "'a list \<Rightarrow> bool list \<Rightarrow> error + 'a list" where
  "boolean_mask tensor bmask =
     (if length tensor = length bmask
      then Inr (map fst (filter snd (zip tensor bmask)))
      else Inl InvalidArgumentError)"

text \<open>
  An element-wise product with the broadcasting of one-dimensional tensors: equal
  lengths, or one operand of length one.
\<close>

definition tf_multiply :: "real list \<Rightarrow> real list \<Rightarrow> error + real list" where
  "tf_multiply xs ys =
     (if length xs = length ys then Inr (map2 (*) xs ys)
      else if length xs = 1 then Inr (map (\<lambda>y. hd xs * y) ys)
      else if length ys = 1 then Inr (map (\<lambda>x. x * hd ys) xs)
      else Inl InvalidArgumentError)"

text \<open>
  \<^verbatim>\<open>tf.reduce_min\<close>: the minimum of the entries; on an empty tensor the runtime returns
  the identity of the minimum, plus infinity, which is \<^term>\<open>None\<close> here.
\<close>

fun reduce_min :: "real list \<Rightarrow> real option" where
  "reduce_min [] = None"
| "reduce_min (x # xs) = Some (fold min xs x)"

subsection \<open>Precision and recall from the accumulated arrays\<close>

type_synonym curve = "real list \<times> real list"

text \<open>\<^verbatim>\<open>_precision_recall(n_gbboxes, scores, tp, fp)\<close>; the result is (precision, recall).\<close>

definition precision_recall ::
  "64 word \<Rightarrow> real list \<Rightarrow> real list \<Rightarrow> real list \<Rightarrow> error + curve" where
  "precision_recall n_gbboxes scores tp fp =
     (let (scores', idxes) = top_k scores in
      case gather tp idxes of Inl e \<Rightarrow> Inl e | Inr tp1 \<Rightarrow>
     (case gather fp idxes of Inl e \<Rightarrow> Inl e | Inr fp1 \<Rightarrow>
        let tp2 = cumsum tp1;
            fp2 = cumsum fp1;
            recall = safe_div_scalar tp2 (real_of_int (sint n_gbboxes));
            precision = safe_div_vec tp2 (map2 (+) tp2 fp2)
        in Inr (precision, recall)))"

subsection \<open>The streaming accumulator\<close>

text \<open>
  The four local variables of \<^verbatim>\<open>streaming_precision_recall_arrays\<close> and the tensors one
  run of the update operation reads.
\<close>

record accumulators =
  v_nobjects :: "64 word"
  v_scores :: "real list"
  v_tp :: "real list"
  v_fp :: "real list"

record batch =
  n_gbboxes :: "64 word list"
  rclasses :: "64 word list"
  rscores :: "real list"
  tp_tensor :: "real list"
  fp_tensor :: "real list"

text \<open>\<^verbatim>\<open>_create_local\<close> initialises every variable with zeros of its shape.\<close>

definition initial_accumulators :: accumulators where
  "initial_accumulators = \<lparr>v_nobjects = 0, v_scores = [], v_tp = [], v_fp = []\<rparr>"

text \<open>
  Lines 135 to 145: the reshapes and the removal of class 0. The result is the triple
  (scores, true positives, false positives) that is appended to the variables. Line 139
  of the source reads \<^verbatim>\<open>fp_tensor = tf.reshape(tp_tensor, [-1])\<close>.
\<close>

definition clean_batch :: "bool \<Rightarrow> batch \<Rightarrow> error + (real list \<times> real list \<times> real list)" where
  "clean_batch remove_zero_labels b =
     (let rclasses1 = rclasses b;
          rscores1 = rscores b;
          tp_tensor1 = tp_tensor b;
          fp_tensor1 = tp_tensor1
      in if remove_zero_labels then
           (let bmask = map (\<lambda>c. 0 <s c) rclasses1 in
            case boolean_mask rclasses1 bmask of Inl e \<Rightarrow> Inl e | Inr rclasses2 \<Rightarrow>
           (case boolean_mask rscores1 bmask of Inl e \<Rightarrow> Inl e | Inr rscores2 \<Rightarrow>
           (case boolean_mask tp_tensor1 bmask of Inl e \<Rightarrow> Inl e | Inr tp_tensor2 \<Rightarrow>
           (case boolean_mask fp_tensor1 bmask of Inl e \<Rightarrow> Inl e | Inr fp_tensor2 \<Rightarrow>
              Inr (rscores2, tp_tensor2, fp_tensor2)))))
         else Inr (rscores1, tp_tensor1, fp_tensor1))"

text \<open>Lines 154 to 161: the four assignments.\<close>

definition accumulate :: "bool \<Rightarrow> batch \<Rightarrow> accumulators \<Rightarrow> error + accumulators" where
  "accumulate remove_zero_labels b st =
     (case clean_batch remove_zero_labels b of
        Inl e \<Rightarrow> Inl e
      | Inr (rscores', tp_tensor', fp_tensor') \<Rightarrow>
          Inr \<lparr>v_nobjects = v_nobjects st + sum_list (n_gbboxes b),
               v_scores = v_scores st @ rscores',
               v_tp = v_tp st @ tp_tensor',
               v_fp = v_fp st @ fp_tensor'\<rparr>)"

text \<open>The value tensor \<^verbatim>\<open>r\<close>: the curve of the variables as they are.\<close>

definition value_op :: "accumulators \<Rightarrow> error + curve" where
  "value_op st = precision_recall (v_nobjects st) (v_scores st) (v_tp st) (v_fp st)"

text \<open>The tensor \<^verbatim>\<open>update_op\<close>: the assignments, then the curve of the new variables.\<close>

definition update_op :: "bool \<Rightarrow> batch \<Rightarrow> accumulators \<Rightarrow> error + (accumulators \<times> curve)" where
  "update_op remove_zero_labels b st =
     (case accumulate remove_zero_labels b st of
        Inl e \<Rightarrow> Inl e
      | Inr st' \<Rightarrow>
          (case precision_recall (v_nobjects st') (v_scores st') (v_tp st') (v_fp st') of
             Inl e \<Rightarrow> Inl e
           | Inr c \<Rightarrow> Inr (st', c)))"

definition streaming_precision_recall_arrays ::
  "bool \<Rightarrow> (accumulators \<Rightarrow> error + curve) \<times>
     (batch \<Rightarrow> accumulators \<Rightarrow> error + (accumulators \<times> curve))" where
  "streaming_precision_recall_arrays remove_zero_labels =
     (value_op, update_op remove_zero_labels)"

text \<open>
  The evaluation loop runs the update operation once per batch; the first exception
  ends the run.
\<close>

fun run_updates :: "bool \<Rightarrow> accumulators \<Rightarrow> batch list \<Rightarrow> error + accumulators" where
  "run_updates remove_zero_labels st [] = Inr st"
| "run_updates remove_zero_labels st (b # bs) =
     (case update_op remove_zero_labels b st of
        Inl e \<Rightarrow> Inl e
      | Inr (st', c) \<Rightarrow> run_updates remove_zero_labels st' bs)"


subsection \<open>Average precision\<close>

text \<open>
  Modelled from the spec: \<^verbatim>\<open>tfe.cummax(x, reverse=True)\<close> lives in the package
  \<^verbatim>\<open>tf_extended\<close> outside the files at hand. The specification describes it as the
  running maximum scanned from the end of the sequence backward: every entry becomes the
  maximum of itself and all later entries.
\<close>

fun cummax_reverse :: "real list \<Rightarrow> real list" where
  "cummax_reverse [] = []"
| "cummax_reverse [x] = [x]"
| "cummax_reverse (x # y # ys) =
     (let r = cummax_reverse (y # ys) in max x (hd r) # r)"

text \<open>
  \<^verbatim>\<open>average_precision(precision, recall)\<close>. The slices \<^verbatim>\<open>[1:]\<close> and \<^verbatim>\<open>[:-1]\<close> of one
  tensor have the same length, so their sum and difference are plain element-wise
  operations; the product of the two derived tensors is where the shapes of
  \<^verbatim>\<open>precision\<close> and \<^verbatim>\<open>recall\<close> meet.
\<close>

definition average_precision :: "real list \<Rightarrow> real list \<Rightarrow> error + real" where
  "average_precision precision recall =
     (let precision1 = [0] @ precision @ [0];
          recall1 = [0] @ recall @ [1];
          precision2 = cummax_reverse precision1;
          mean_pre = map (\<lambda>s. s / 2) (map2 (+) (tl precision2) (butlast precision2));
          diff_rec = map2 (-) (tl recall1) (butlast recall1)
      in case tf_multiply mean_pre diff_rec of
           Inl e \<Rightarrow> Inl e
         | Inr products \<Rightarrow> Inr (sum_list products))"

subsection \<open>Precision at given recall values\<close>

text \<open>
  The body of the loop of \<^verbatim>\<open>precision_recall_values\<close> for one \<^verbatim>\<open>x\<close>: the mask
  \<^verbatim>\<open>recall <= x\<close>, cast to 0 and 1, times the precision, and the minimum of the product.
\<close>

definition precision_at :: "real \<Rightarrow> real list \<Rightarrow> real list \<Rightarrow> error + real option" where
  "precision_at x precision recall =
     (let bmask = map (\<lambda>r. r \<le> x) recall in
      case tf_multiply precision (map (\<lambda>m. if m then 1 else 0) bmask) of
        Inl e \<Rightarrow> Inl e
      | Inr products \<Rightarrow> Inr (reduce_min products))"

text \<open>One tensor per requested value; evaluating a tensor yields a number or fails.\<close>

definition precision_recall_values ::
  "real list \<Rightarrow> real list \<Rightarrow> real list \<Rightarrow> (error + real option) list" where
  "precision_recall_values xvals precision recall =
     map (\<lambda>x. precision_at x precision recall) xvals"

section \<open>Preprocessing selector\<close>

text \<open>
  The modules \<^verbatim>\<open>vgg_preprocessing\<close> and \<^verbatim>\<open>inception_preprocessing\<close> are outside the
  files at hand. A module is a record with the one attribute the selector uses; the two
  modules are parameters. The keyword arguments are one value of type \<^typ>\<open>'k\<close>.
\<close>

record ('i, 'h, 'w, 'k, 'r) preprocessing_module =
  preprocess_image :: "'i \<Rightarrow> 'h \<Rightarrow> 'w \<Rightarrow> bool \<Rightarrow> 'k \<Rightarrow> 'r"

definition preprocessing_fn_map ::
  "('i, 'h, 'w, 'k, 'r) preprocessing_module \<Rightarrow> ('i, 'h, 'w, 'k, 'r) preprocessing_module \<Rightarrow>
   (string \<times> ('i, 'h, 'w, 'k, 'r) preprocessing_module) list" where
  "preprocessing_fn_map vgg_preprocessing inception_preprocessing =
     [(''vgg'', vgg_preprocessing),
      (''vgg_a'', vgg_preprocessing),
      (''vgg_16'', vgg_preprocessing),
      (''vgg_19'', vgg_preprocessing),
      (''inception_v3'', inception_preprocessing),
      (''inception_resnet_v2'', inception_preprocessing),
      (''xception'', inception_preprocessing),
      (''xception_keras'', inception_preprocessing),
      (''dception'', inception_preprocessing),
      (''ssd_300_vgg'', vgg_preprocessing)]"

definition get_preprocessing ::
  "('i, 'h, 'w, 'k, 'r) preprocessing_module \<Rightarrow> ('i, 'h, 'w, 'k, 'r) preprocessing_module \<Rightarrow>
   string \<Rightarrow> bool \<Rightarrow> error + ('i \<Rightarrow> 'h \<Rightarrow> 'w \<Rightarrow> 'k \<Rightarrow> 'r)" where
  "get_preprocessing vgg_preprocessing inception_preprocessing name is_training =
     (case map_of (preprocessing_fn_map vgg_preprocessing inception_preprocessing) name of
        None \<Rightarrow>
          Inl (ValueError (''Preprocessing name ['' @ name @ ''] was not recognized''))
      | Some m \<Rightarrow>
          Inr (\<lambda>image output_height output_width kwargs.
                 preprocess_image m image output_height output_width is_training kwargs))"

section \<open>Evaluation driver\<close>

record flags =
  num_classes :: int
  batch_size :: int
  max_num_batches :: "int option"
  master :: string
  checkpoint_path :: string
  eval_dir :: string
  num_preprocessing_threads :: int
  dataset_name :: string
  dataset_split_name :: string
  dataset_dir :: "string option"
  labels_offset :: int
  model_name :: string
  preprocessing_name :: "string option"
  moving_average_decay :: "real option"
  eval_image_size :: "int option"

text \<open>The defaults of the flag definitions, lines 43 to 82.\<close>

definition default_flags :: flags where
  "default_flags =
     \<lparr>num_classes = 21, batch_size = 100, max_num_batches = None, master = [],
      checkpoint_path = ''/tmp/tfmodel/'', eval_dir = ''/tmp/tfmodel/'',
      num_preprocessing_threads = 4, dataset_name = ''imagenet'',
      dataset_split_name = ''test'', dataset_dir = None, labels_offset = 0,
      model_name = ''inception_v3'', preprocessing_name = None,
      moving_average_decay = None, eval_image_size = None\<rparr>"

text \<open>Python's truth value of an optional flag: \<^verbatim>\<open>None\<close>, the empty string and 0 are false.\<close>

definition truthy_string :: "string option \<Rightarrow> bool" where
  "truthy_string v = (case v of None \<Rightarrow> False | Some s \<Rightarrow> s \<noteq> [])"

definition truthy_int :: "int option \<Rightarrow> bool" where
  "truthy_int v = (case v of None \<Rightarrow> False | Some n \<Rightarrow> n \<noteq> 0)"

text \<open>
  Lines 239 to 242. \<^verbatim>\<open>dataset.num_samples / float(FLAGS.batch_size)\<close> is a division of
  floating-point numbers, which raises on a zero divisor; it is idealised as the exact
  quotient.
\<close>

definition num_batches :: "flags \<Rightarrow> int \<Rightarrow> error + int" where
  "num_batches FLAGS num_samples =
     (if truthy_int (max_num_batches FLAGS) then Inr (the (max_num_batches FLAGS))
      else if batch_size FLAGS = 0 then Inl ZeroDivisionError
      else Inr \<lceil>real_of_int num_samples / real_of_int (batch_size FLAGS)\<rceil>)"

text \<open>
  The collaborators of the driver that can make it fail or that supply a number it
  computes with: the dataset factory (which yields the number of samples), the network
  factory, and the two preprocessing modules.
\<close>

record ('i, 'h, 'w, 'k, 'r) collaborators =
  get_dataset :: "string \<Rightarrow> string \<Rightarrow> string \<Rightarrow> error + int"
  get_network :: "string \<Rightarrow> error + unit"
  vgg_module :: "('i, 'h, 'w, 'k, 'r) preprocessing_module"
  inception_module :: "('i, 'h, 'w, 'k, 'r) preprocessing_module"

text \<open>What \<^verbatim>\<open>main\<close> constructs, in the order of the source.\<close>

datatype entity =
    GlobalStep
  | Dataset
  | Network
  | PreprocessingFn
  | DataProvider
  | BatchQueue
  | Predictions
  | Detections
  | Matching
  | Metrics
  | EvaluateOnce int

text \<open>
  \<^verbatim>\<open>main\<close> as the trace of the entities constructed, paired with the outcome. The trace
  holds what had been constructed when an exception was raised. The last statement of
  \<^verbatim>\<open>main\<close> divides the elapsed time by the number of batches.
\<close>

definition main ::
  "('i, 'h, 'w, 'k, 'r) collaborators \<Rightarrow> flags \<Rightarrow> entity list \<times> (error + unit)" where
  "main env FLAGS =
     (if \<not> truthy_string (dataset_dir FLAGS) then
        ([], Inl (ValueError ''You must supply the dataset directory with --dataset_dir''))
      else
        case get_dataset env (dataset_name FLAGS) (dataset_split_name FLAGS)
               (the (dataset_dir FLAGS)) of
          Inl e \<Rightarrow> ([GlobalStep], Inl e)
        | Inr num_samples \<Rightarrow>
       (case get_network env (model_name FLAGS) of
          Inl e \<Rightarrow> ([GlobalStep, Dataset], Inl e)
        | Inr u \<Rightarrow>
        let preprocessing_name1 =
              (if truthy_string (preprocessing_name FLAGS)
               then the (preprocessing_name FLAGS) else model_name FLAGS)
        in
       (case get_preprocessing (vgg_module env) (inception_module env)
               preprocessing_name1 False of
          Inl e \<Rightarrow> ([GlobalStep, Dataset, Network], Inl e)
        | Inr image_preprocessing_fn \<Rightarrow>
        let built = [GlobalStep, Dataset, Network, PreprocessingFn, DataProvider,
                     BatchQueue, Predictions, Detections, Matching, Metrics]
        in
       (case num_batches FLAGS num_samples of
          Inl e \<Rightarrow> (built, Inl e)
        | Inr n \<Rightarrow>
            (built @ [EvaluateOnce n],
             if n = 0 then Inl ZeroDivisionError else Inr ())))))"

section \<open>The specification's formulas\<close>

text \<open>
  The specification's description of average precision, written down as it is worded,
  for comparison with \<^term>\<open>average_precision\<close>. The envelope of a sequence at position
  \<open>i\<close> is the maximum of the entry at \<open>i\<close> and of all later entries. The curve is padded
  with the points (precision 0, recall 0) in front and (precision 0, recall 1) behind;
  the sum runs over the adjacent pairs of the padded curve.
\<close>

definition envelope :: "real list \<Rightarrow> nat \<Rightarrow> real" where
  "envelope ps i = Max (set (drop i ps))"

definition average_precision_spec :: "real list \<Rightarrow> real list \<Rightarrow> real" where
  "average_precision_spec precision recall =
     (let P = [0] @ precision @ [0];
          R = [0] @ recall @ [1]
      in sum_list (map (\<lambda>i. (envelope P (Suc i) + envelope P i) / 2 * (R ! Suc i - R ! i))
                    [0..<length P - 1]))"


section \<open>Properties of the metrics library\<close>

subsection \<open>Safe division\<close>

text \<open>
  Claim C6. Safe division is defined on every pair of numerator and denominator: where
  the denominator is at most 0 the result is exactly 0, where it is positive the result
  is the quotient. This holds for the selection on one element and, element by element,
  for both shapes in which the source calls it (a denominator tensor and a scalar
  denominator); the result tensor has the numerator's entries in number.
\<close>

theorem safe_div_total:
  "(denominator \<le> 0 \<longrightarrow> safe_div numerator denominator = 0)
   \<and> (denominator > 0 \<longrightarrow> safe_div numerator denominator = numerator / denominator)
   \<and> length (safe_div_vec ns ds) = min (length ns) (length ds)
   \<and> (\<forall>i < min (length ns) (length ds). safe_div_vec ns ds ! i = safe_div (ns ! i) (ds ! i))
   \<and> length (safe_div_scalar ns denominator) = length ns
   \<and> (\<forall>i < length ns. safe_div_scalar ns denominator ! i = safe_div (ns ! i) denominator)"
  by (simp add: safe_div_def safe_div_vec_def safe_div_scalar_def)

theorem safe_div_total_witness:
  "safe_div 3 (-2) = 0 \<and> safe_div 3 0 = 0 \<and> safe_div 3 2 = 3 / 2
   \<and> safe_div_vec [1, 2] [0, 4] ! 1 = safe_div 2 4
   \<and> safe_div_scalar [1, 2] 4 ! 0 = safe_div 1 4"
  using safe_div_total [of "-2" 3 "[1, 2]" "[0, 4]"] safe_div_total [of 0 3 "[]" "[]"]
    safe_div_total [of 2 3 "[]" "[]"] safe_div_total [of 4 0 "[1, 2]" "[]"]
  by simp

subsection \<open>The curve of the accumulated arrays\<close>

lemma cumsum_from_length [simp]: "length (cumsum_from a xs) = length xs"
  by (induction xs arbitrary: a) simp_all

lemma cumsum_length [simp]: "length (cumsum xs) = length xs"
  by (simp add: cumsum_def)

lemma cumsum_from_nth:
  "i < length xs \<Longrightarrow> cumsum_from a xs ! i = a + sum_list (take (Suc i) xs)"
proof (induction xs arbitrary: a i)
  case Nil
  then show ?case by simp
next
  case (Cons x xs)
  show ?case
  proof (cases i)
    case 0
    then show ?thesis by simp
  next
    case (Suc j)
    with Cons.prems have "j < length xs" by simp
    then have "cumsum_from (a + x) xs ! j = (a + x) + sum_list (take (Suc j) xs)"
      by (rule Cons.IH)
    with Suc show ?thesis by simp
  qed
qed

lemma sum_list_take_Suc:
  "i < length xs \<Longrightarrow> sum_list (take (Suc i) xs) = (\<Sum>j\<le>i. (xs ! j :: real))"
proof -
  assume i: "i < length xs"
  have l: "length (take (Suc i) xs) = Suc i"
    using i by simp
  have "sum_list (take (Suc i) xs) = (\<Sum>j = 0..<length (take (Suc i) xs). take (Suc i) xs ! j)"
    by (rule sum_list_sum_nth)
  also have "\<dots> = (\<Sum>j = 0..<Suc i. xs ! j)"
    unfolding l by (intro sum.cong) simp_all
  also have "\<dots> = (\<Sum>j\<le>i. xs ! j)"
    by (simp add: atLeast0LessThan lessThan_Suc_atMost)
  finally show ?thesis .
qed

lemma cumsum_nth:
  "i < length xs \<Longrightarrow> cumsum xs ! i = (\<Sum>j\<le>i. xs ! j)"
  by (simp add: cumsum_def cumsum_from_nth sum_list_take_Suc)

lemma top_k_indices:
  "mset (snd (top_k scores)) = mset [0..<length scores]"
  "sorted_wrt (\<ge>) (map (\<lambda>i. scores ! i) (snd (top_k scores)))"
  "length (snd (top_k scores)) = length scores"
proof -
  let ?p = "sort_key (\<lambda>i. - (scores ! i)) [0..<length scores]"
  have "sorted (map (\<lambda>i. - (scores ! i)) ?p)" by (rule sorted_sort_key)
  then have "sorted_wrt (\<lambda>a b. scores ! a \<ge> scores ! b) ?p"
    by (simp add: sorted_wrt_map)
  then show "sorted_wrt (\<ge>) (map (\<lambda>i. scores ! i) (snd (top_k scores)))"
    by (simp add: top_k_def Let_def sorted_wrt_map)
  show "mset (snd (top_k scores)) = mset [0..<length scores]"
    by (simp add: top_k_def Let_def)
  show "length (snd (top_k scores)) = length scores"
    by (simp add: top_k_def Let_def)
qed

lemma gather_top_k:
  "length scores \<le> length xs \<Longrightarrow>
     gather xs (snd (top_k scores)) = Inr (map (\<lambda>i. xs ! i) (snd (top_k scores)))"
  by (auto simp add: gather_def top_k_def Let_def list_all_iff)

lemma precision_recall_total:
  assumes "length scores \<le> length tp" "length scores \<le> length fp"
  shows "precision_recall n scores tp fp =
           Inr (safe_div_vec (cumsum (map (\<lambda>i. tp ! i) (snd (top_k scores))))
                  (map2 (+) (cumsum (map (\<lambda>i. tp ! i) (snd (top_k scores))))
                            (cumsum (map (\<lambda>i. fp ! i) (snd (top_k scores))))),
                safe_div_scalar (cumsum (map (\<lambda>i. tp ! i) (snd (top_k scores))))
                  (real_of_int (sint n)))"
proof -
  obtain s idxes where tk: "top_k scores = (s, idxes)"
    by (cases "top_k scores")
  then have idx: "snd (top_k scores) = idxes" by simp
  have g1: "gather tp idxes = Inr (map (\<lambda>i. tp ! i) idxes)"
    using gather_top_k [OF assms(1)] by (simp add: idx)
  have g2: "gather fp idxes = Inr (map (\<lambda>i. fp ! i) idxes)"
    using gather_top_k [OF assms(2)] by (simp add: idx)
  show ?thesis
    by (simp add: precision_recall_def tk g1 g2 Let_def)
qed

text \<open>
  Claim C3. For accumulated arrays of equal length \<open>k\<close>, \<^verbatim>\<open>_precision_recall\<close> returns two
  sequences of length \<open>k\<close>. There is a permutation of the \<open>k\<close> positions that puts the
  scores in descending order, and with the true and false positives read in that order,
  the recall at rank \<open>i\<close> is the cumulative sum of true positives up to \<open>i\<close> divided by the
  number of ground-truth objects, and the precision at rank \<open>i\<close> is that cumulative sum
  divided by the sum of the cumulative true and false positives; each quotient is 0 where
  its denominator is not positive.
\<close>

theorem precision_recall_spec:
  assumes "length scores = k" and "length tp = k" and "length fp = k"
  shows "\<exists>perm precision recall.
      precision_recall n scores tp fp = Inr (precision, recall)
    \<and> mset perm = mset [0..<k]
    \<and> sorted_wrt (\<ge>) (map (\<lambda>i. scores ! i) perm)
    \<and> length precision = k \<and> length recall = k
    \<and> (\<forall>i<k. recall ! i =
               (if real_of_int (sint n) > 0
                then (\<Sum>j\<le>i. tp ! (perm ! j)) / real_of_int (sint n) else 0)
           \<and> precision ! i =
               (if (\<Sum>j\<le>i. tp ! (perm ! j)) + (\<Sum>j\<le>i. fp ! (perm ! j)) > 0
                then (\<Sum>j\<le>i. tp ! (perm ! j)) /
                       ((\<Sum>j\<le>i. tp ! (perm ! j)) + (\<Sum>j\<le>i. fp ! (perm ! j)))
                else 0))"
proof -
  define perm where "perm = snd (top_k scores)"
  define ctp where "ctp = cumsum (map (\<lambda>i. tp ! i) perm)"
  define cfp where "cfp = cumsum (map (\<lambda>i. fp ! i) perm)"
  have lperm: "length perm = k"
    using assms(1) by (simp add: perm_def top_k_indices(3))
  have pr: "precision_recall n scores tp fp =
      Inr (safe_div_vec ctp (map2 (+) ctp cfp), safe_div_scalar ctp (real_of_int (sint n)))"
    unfolding ctp_def cfp_def perm_def
    by (rule precision_recall_total) (simp_all add: assms)
  have lc: "length ctp = k" "length cfp = k"
    by (simp_all add: ctp_def cfp_def lperm)
  have ctp: "ctp ! i = (\<Sum>j\<le>i. tp ! (perm ! j))" if "i < k" for i
  proof -
    have "ctp ! i = (\<Sum>j\<le>i. map (\<lambda>i. tp ! i) perm ! j)"
      unfolding ctp_def using that by (intro cumsum_nth) (simp add: lperm)
    also have "\<dots> = (\<Sum>j\<le>i. tp ! (perm ! j))"
      using that by (intro sum.cong) (simp_all add: lperm)
    finally show ?thesis .
  qed
  have cfp: "cfp ! i = (\<Sum>j\<le>i. fp ! (perm ! j))" if "i < k" for i
  proof -
    have "cfp ! i = (\<Sum>j\<le>i. map (\<lambda>i. fp ! i) perm ! j)"
      unfolding cfp_def using that by (intro cumsum_nth) (simp add: lperm)
    also have "\<dots> = (\<Sum>j\<le>i. fp ! (perm ! j))"
      using that by (intro sum.cong) (simp_all add: lperm)
    finally show ?thesis .
  qed
  have rec: "safe_div_scalar ctp (real_of_int (sint n)) ! i =
      (if real_of_int (sint n) > 0 then (\<Sum>j\<le>i. tp ! (perm ! j)) / real_of_int (sint n) else 0)"
    if "i < k" for i
    using that by (simp add: safe_div_scalar_def lc ctp)
  have prec: "safe_div_vec ctp (map2 (+) ctp cfp) ! i =
      (if (\<Sum>j\<le>i. tp ! (perm ! j)) + (\<Sum>j\<le>i. fp ! (perm ! j)) > 0
       then (\<Sum>j\<le>i. tp ! (perm ! j)) /
              ((\<Sum>j\<le>i. tp ! (perm ! j)) + (\<Sum>j\<le>i. fp ! (perm ! j)))
       else 0)"
    if "i < k" for i
    using that by (simp add: safe_div_vec_def safe_div_def lc ctp cfp)
  have mp: "mset perm = mset [0..<k]"
    using assms(1) by (simp add: perm_def top_k_indices(1))
  have sp: "sorted_wrt (\<ge>) (map (\<lambda>i. scores ! i) perm)"
    by (simp add: perm_def top_k_indices(2))
  have lp: "length (safe_div_vec ctp (map2 (+) ctp cfp)) = k"
    and lr: "length (safe_div_scalar ctp (real_of_int (sint n))) = k"
    by (simp_all add: safe_div_vec_def safe_div_scalar_def lc)
  show ?thesis
  proof (rule exI [of _ perm], rule exI [of _ "safe_div_vec ctp (map2 (+) ctp cfp)"],
      rule exI [of _ "safe_div_scalar ctp (real_of_int (sint n))"], intro conjI allI impI)
    show "precision_recall n scores tp fp =
      Inr (safe_div_vec ctp (map2 (+) ctp cfp), safe_div_scalar ctp (real_of_int (sint n)))"
      by (rule pr)
    show "mset perm = mset [0..<k]" by (rule mp)
    show "sorted_wrt (\<ge>) (map (\<lambda>i. scores ! i) perm)" by (rule sp)
    show "length (safe_div_vec ctp (map2 (+) ctp cfp)) = k" by (rule lp)
    show "length (safe_div_scalar ctp (real_of_int (sint n))) = k" by (rule lr)
  next
    fix i assume "i < k"
    then show "safe_div_scalar ctp (real_of_int (sint n)) ! i =
      (if real_of_int (sint n) > 0 then (\<Sum>j\<le>i. tp ! (perm ! j)) / real_of_int (sint n) else 0)"
      by (rule rec)
  next
    fix i assume "i < k"
    then show "safe_div_vec ctp (map2 (+) ctp cfp) ! i =
      (if (\<Sum>j\<le>i. tp ! (perm ! j)) + (\<Sum>j\<le>i. fp ! (perm ! j)) > 0
       then (\<Sum>j\<le>i. tp ! (perm ! j)) /
              ((\<Sum>j\<le>i. tp ! (perm ! j)) + (\<Sum>j\<le>i. fp ! (perm ! j)))
       else 0)"
      by (rule prec)
  qed
qed

theorem precision_recall_spec_witness:
  "length [5 / 10, 9 / 10, 7 / 10 :: real] = 3 \<and> length [1, 0, 1 :: real] = 3
   \<and> length [0, 1, 0 :: real] = 3
   \<and> precision_recall 2 [5 / 10, 9 / 10, 7 / 10] [1, 0, 1] [0, 1, 0] =
        Inr ([0, 1 / 2, 2 / 3], [0, 1 / 2, 1])
   \<and> (\<exists>perm precision recall.
        precision_recall 2 [5 / 10, 9 / 10, 7 / 10] [1, 0, 1] [0, 1, 0] = Inr (precision, recall)
      \<and> mset perm = mset [0..<3]
      \<and> sorted_wrt (\<ge>) (map (\<lambda>i. [5 / 10, 9 / 10, 7 / 10 :: real] ! i) perm)
      \<and> length precision = 3 \<and> length recall = 3
      \<and> (\<forall>i<3. recall ! i =
               (if real_of_int (sint (2 :: 64 word)) > 0
                then (\<Sum>j\<le>i. [1, 0, 1 :: real] ! (perm ! j)) / real_of_int (sint (2 :: 64 word))
                else 0)
           \<and> precision ! i =
               (if (\<Sum>j\<le>i. [1, 0, 1 :: real] ! (perm ! j))
                     + (\<Sum>j\<le>i. [0, 1, 0 :: real] ! (perm ! j)) > 0
                then (\<Sum>j\<le>i. [1, 0, 1 :: real] ! (perm ! j)) /
                       ((\<Sum>j\<le>i. [1, 0, 1 :: real] ! (perm ! j))
                         + (\<Sum>j\<le>i. [0, 1, 0 :: real] ! (perm ! j)))
                else 0)))"
proof -
  have v: "precision_recall 2 [5 / 10, 9 / 10, 7 / 10] [1, 0, 1] [0, 1, 0] =
        Inr ([0, 1 / 2, 2 / 3], [0, 1 / 2, 1])"
    by (simp add: precision_recall_def top_k_def gather_def cumsum_def safe_div_vec_def
        safe_div_def safe_div_scalar_def)
  have l: "length [5 / 10, 9 / 10, 7 / 10 :: real] = 3" "length [1, 0, 1 :: real] = 3"
    "length [0, 1, 0 :: real] = 3"
    by simp_all
  from precision_recall_spec [OF l, of 2] v l show ?thesis
    by (intro conjI) assumption+
qed

subsection \<open>The streaming accumulator\<close>

lemma boolean_mask_map:
  "length xs = length cs \<Longrightarrow>
     boolean_mask xs (map P cs) = Inr (map snd (filter (\<lambda>(c, x). P c) (zip cs xs)))"
proof -
  assume len: "length xs = length cs"
  then have "map fst (filter snd (zip xs (map P cs))) = map snd (filter (\<lambda>(c, x). P c) (zip cs xs))"
    by (induction xs cs rule: list_induct2) simp_all
  with len show ?thesis by (simp add: boolean_mask_def)
qed

lemma boolean_mask_length_mismatch:
  "length xs \<noteq> length cs \<Longrightarrow> boolean_mask xs (map P cs) = Inl InvalidArgumentError"
  by (simp add: boolean_mask_def)

text \<open>
  Claim C1. With \<^verbatim>\<open>remove_zero_labels\<close> enabled, and score and true-positive tensors of
  the shape of the class tensor, one update appends to the false-positive variable the
  entries of the true-positive tensor at the positions whose class is greater than 0,
  the same entries it appends to the true-positive variable. The false-positive tensor
  passed to the function has no influence on the variables.
\<close>

theorem accumulate_fp_carries_tp:
  assumes "length (rscores b) = length (rclasses b)"
    and "length (tp_tensor b) = length (rclasses b)"
  shows "accumulate True b st =
           Inr \<lparr>v_nobjects = v_nobjects st + sum_list (n_gbboxes b),
                v_scores = v_scores st @
                  map snd (filter (\<lambda>(c, s). 0 <s c) (zip (rclasses b) (rscores b))),
                v_tp = v_tp st @
                  map snd (filter (\<lambda>(c, t). 0 <s c) (zip (rclasses b) (tp_tensor b))),
                v_fp = v_fp st @
                  map snd (filter (\<lambda>(c, t). 0 <s c) (zip (rclasses b) (tp_tensor b)))\<rparr>
     \<and> accumulate True (b\<lparr>fp_tensor := other\<rparr>) st = accumulate True b st"
  using assms by (simp add: accumulate_def clean_batch_def Let_def boolean_mask_map)

theorem accumulate_fp_carries_tp_witness:
  "accumulate True
     \<lparr>n_gbboxes = [2], rclasses = [0, 3, 0, 5], rscores = [1 / 10, 2 / 10, 3 / 10, 4 / 10],
      tp_tensor = [1, 1, 0, 0], fp_tensor = [0, 0, 1, 1]\<rparr>
     \<lparr>v_nobjects = 1, v_scores = [1 / 2], v_tp = [1], v_fp = [0]\<rparr>
    = Inr \<lparr>v_nobjects = 3, v_scores = [1 / 2, 2 / 10, 4 / 10], v_tp = [1, 1, 0],
           v_fp = [0, 1, 0]\<rparr>"
  using accumulate_fp_carries_tp
    [of "\<lparr>n_gbboxes = [2], rclasses = [0, 3, 0, 5],
          rscores = [1 / 10, 2 / 10, 3 / 10, 4 / 10],
          tp_tensor = [1, 1, 0, 0], fp_tensor = [0, 0, 1, 1]\<rparr>"
        "\<lparr>v_nobjects = 1, v_scores = [1 / 2], v_tp = [1], v_fp = [0]\<rparr>" "[]"]
  by (simp add: word_sless_alt)



lemma update_op_value:
  "update_op remove_zero_labels b st = Inr (st', c) \<Longrightarrow> value_op st' = Inr c"
  by (auto simp add: update_op_def value_op_def split: sum.splits)










text \<open>
  A run that succeeds leaves variables from which a curve can be derived: the hypotheses
  of the theorem above are met by every successful run.
\<close>

lemma run_updates_value_defined:
  "run_updates remove_zero_labels st bs = Inr st' \<Longrightarrow> \<exists>c. value_op st = Inr c \<Longrightarrow>
     \<exists>c. value_op st' = Inr c"
proof (induction bs arbitrary: st)
  case Nil
  then show ?case by simp
next
  case (Cons b bs)
  from Cons.prems(1) obtain st1 c1 where u: "update_op remove_zero_labels b st = Inr (st1, c1)"
    and r: "run_updates remove_zero_labels st1 bs = Inr st'"
    by (auto split: sum.splits)
  from u have "value_op st1 = Inr c1" by (rule update_op_value)
  with r show ?case by (intro Cons.IH) auto
qed

lemma initial_value: "value_op initial_accumulators = Inr ([], [])"
  by (simp add: value_op_def initial_accumulators_def precision_recall_def top_k_def gather_def
      cumsum_def safe_div_vec_def safe_div_scalar_def)

subsection \<open>The order of the batches\<close>


















subsection \<open>Average precision\<close>

lemma cummax_reverse_length [simp]: "length (cummax_reverse xs) = length xs"
  by (induction xs rule: cummax_reverse.induct) (simp_all add: Let_def)

lemma cummax_reverse_hd: "xs \<noteq> [] \<Longrightarrow> hd (cummax_reverse xs) = Max (set xs)"
proof (induction xs rule: cummax_reverse.induct)
  case (3 x y ys)
  then have "hd (cummax_reverse (y # ys)) = Max (set (y # ys))" by simp
  then show ?case by (simp add: Let_def)
qed simp_all

lemma cummax_reverse_nth:
  "i < length xs \<Longrightarrow> cummax_reverse xs ! i = envelope xs i"
proof (induction xs arbitrary: i rule: cummax_reverse.induct)
  case 1
  then show ?case by simp
next
  case (2 x)
  then show ?case by (simp add: envelope_def)
next
  case (3 x y ys)
  show ?case
  proof (cases i)
    case 0
    have "hd (cummax_reverse (y # ys)) = Max (set (y # ys))"
      by (rule cummax_reverse_hd) simp
    with 0 show ?thesis by (simp add: Let_def envelope_def)
  next
    case (Suc j)
    with 3 have "cummax_reverse (y # ys) ! j = envelope (y # ys) j" by simp
    with Suc show ?thesis by (simp add: Let_def envelope_def)
  qed
qed

text \<open>
  Claim C4. For precision and recall sequences of equal length, \<^verbatim>\<open>average_precision\<close>
  returns the number the specification describes: the curve is padded with (0, 0) in
  front and (0, 1) behind, the precision is replaced by its envelope (each value becomes
  the maximum of itself and all later values), and the mean of the two enveloped
  precisions times the difference of the recalls is summed over the adjacent pairs. The
  curve with the single point precision 1, recall 1 has average precision exactly 1.
\<close>

theorem average_precision_spec_eq:
  "(length precision = length recall \<longrightarrow>
      average_precision precision recall = Inr (average_precision_spec precision recall))
   \<and> average_precision [1] [1] = Inr 1"
proof
  show "length precision = length recall \<longrightarrow>
      average_precision precision recall = Inr (average_precision_spec precision recall)"
  proof
    assume len: "length precision = length recall"
    define P where "P = [0] @ precision @ [0]"
    define R where "R = [0] @ recall @ [1]"
    define P2 where "P2 = cummax_reverse P"
    define mean_pre where "mean_pre = map (\<lambda>s. s / 2) (map2 (+) (tl P2) (butlast P2))"
    define diff_rec where "diff_rec = map2 (-) (tl R) (butlast R)"
    have lP: "length P = length precision + 2" and lR: "length R = length precision + 2"
      using len by (simp_all add: P_def R_def)
    have lP2: "length P2 = length precision + 2" by (simp add: P2_def lP)
    have lm: "length mean_pre = length precision + 1" by (simp add: mean_pre_def lP2)
    have ld: "length diff_rec = length precision + 1" by (simp add: diff_rec_def lR)
    have mul: "tf_multiply mean_pre diff_rec = Inr (map2 (*) mean_pre diff_rec)"
      by (simp add: tf_multiply_def lm ld)
    have eq: "map2 (*) mean_pre diff_rec =
        map (\<lambda>i. (envelope P (Suc i) + envelope P i) / 2 * (R ! Suc i - R ! i)) [0..<length P - 1]"
    proof (rule nth_equalityI)
      show "length (map2 (*) mean_pre diff_rec) =
        length (map (\<lambda>i. (envelope P (Suc i) + envelope P i) / 2 * (R ! Suc i - R ! i)) [0..<length P - 1])"
        by (simp add: lm ld lP)
    next
      fix i assume "i < length (map2 (*) mean_pre diff_rec)"
      then have i: "i < length precision + 1" by (simp add: lm ld)
      have a: "mean_pre ! i = (P2 ! Suc i + P2 ! i) / 2"
        using i by (simp add: mean_pre_def lP2 nth_tl nth_butlast)
      have b: "diff_rec ! i = R ! Suc i - R ! i"
        using i by (simp add: diff_rec_def lR nth_tl nth_butlast)
      have c: "P2 ! Suc i = envelope P (Suc i)" "P2 ! i = envelope P i"
        using i by (simp_all add: P2_def cummax_reverse_nth lP)
      show "map2 (*) mean_pre diff_rec ! i =
        map (\<lambda>i. (envelope P (Suc i) + envelope P i) / 2 * (R ! Suc i - R ! i)) [0..<length P - 1] ! i"
      proof -
        have "map (\<lambda>i. (envelope P (Suc i) + envelope P i) / 2 * (R ! Suc i - R ! i))
                [0..<length P - 1] ! i =
              (envelope P (Suc i) + envelope P i) / 2 * (R ! Suc i - R ! i)"
          using i by (simp add: lP del: upt_Suc)
        moreover have "map2 (*) mean_pre diff_rec ! i = mean_pre ! i * diff_rec ! i"
          using i by (simp add: lm ld)
        ultimately show ?thesis by (simp add: a b c)
      qed
    qed
    have "average_precision precision recall = Inr (sum_list (map2 (*) mean_pre diff_rec))"
      using mul
      by (simp add: average_precision_def Let_def P_def R_def P2_def mean_pre_def diff_rec_def)
    also have "\<dots> = Inr (average_precision_spec precision recall)"
      by (simp only: eq) (simp add: average_precision_spec_def Let_def P_def R_def)
    finally show "average_precision precision recall = Inr (average_precision_spec precision recall)" .
  qed
next
  show "average_precision [1] [1] = Inr 1"
    by (simp add: average_precision_def tf_multiply_def)
qed

theorem average_precision_spec_eq_witness:
  "length [1, 1 / 2 :: real] = length [1 / 2, 1 :: real]
   \<and> average_precision [1, 1 / 2] [1 / 2, 1] = Inr (7 / 8)
   \<and> average_precision_spec [1, 1 / 2] [1 / 2, 1] = 7 / 8"
proof -
  have v: "average_precision [1, 1 / 2] [1 / 2, 1] = Inr (7 / 8)"
    by (simp add: average_precision_def tf_multiply_def)
  show ?thesis
    using v average_precision_spec_eq [of "[1, 1 / 2]" "[1 / 2, 1]"] by simp
qed

subsection \<open>Precision at given recall values\<close>

text \<open>
  What the loop body computes on a curve that is not empty: the minimum, over all points
  of the curve, of the precision where the recall is at most \<open>x\<close> and of 0 elsewhere.
\<close>

lemma fold_min_Min: "fold min xs (x :: real) = Min (set (x # xs))"
  by (rule Min.set_eq_fold [symmetric])

lemma precision_at_masked_min:
  assumes "length precision = length recall" and "precision \<noteq> []"
  shows "precision_at x precision recall =
           Inr (Some (Min (set (map2 (\<lambda>p r. if r \<le> x then p else 0) precision recall))))"
proof -
  have m: "map2 (*) precision (map (\<lambda>m. if m then 1 else 0) (map (\<lambda>r. r \<le> x) recall)) =
      map2 (\<lambda>p r. if r \<le> x then p else 0) precision recall"
    using assms(1) by (induction precision recall rule: list_induct2) simp_all
  obtain y ys where ys: "map2 (\<lambda>p r. if r \<le> x then p else 0) precision recall = y # ys"
    using assms by (cases precision; cases recall) auto
  have t: "tf_multiply precision (map (\<lambda>m. if m then 1 else 0) (map (\<lambda>r. r \<le> x) recall)) =
      Inr (map2 (\<lambda>p r. if r \<le> x then p else 0) precision recall)"
    unfolding m [symmetric] using assms(1) by (simp add: tf_multiply_def)
  show ?thesis
    unfolding precision_at_def Let_def t by (simp add: ys fold_min_Min)
qed

text \<open>
  Claim C5 on the curve with precision (1/2, 1/2) and recall (1/2, 1), asked for the
  recall 1/2. The one point whose recall is at most 1/2 has precision 1/2, which is the
  minimum the claim names. The code multiplies the precision of the other point by 0 and
  takes the minimum over both points: the value is 0.
\<close>

theorem precision_recall_values_masked_zero:
  "precision_recall_values [1 / 2] [1 / 2, 1 / 2] [1 / 2, 1] = [Inr (Some 0)]"
  by (simp add: precision_recall_values_def precision_at_def tf_multiply_def)

section \<open>Properties of the preprocessing selector\<close>

text \<open>
  Claim C7. \<^verbatim>\<open>get_preprocessing\<close> is a function of its arguments alone, defined on every
  name. On the five names of the VGG family it returns the function that forwards to the
  VGG module's \<^verbatim>\<open>preprocess_image\<close> with the \<^verbatim>\<open>is_training\<close> given at selection; on the
  five names of the Inception family it returns the same for the Inception module; on
  every other name (names are compared as written, so \<^verbatim>\<open>VGG\<close> is another name) it fails
  with the message \<^verbatim>\<open>Preprocessing name [<name>] was not recognized\<close>.
\<close>

theorem get_preprocessing_total:
  "(name \<in> {''vgg'', ''vgg_a'', ''vgg_16'', ''vgg_19'', ''ssd_300_vgg''} \<longrightarrow>
      get_preprocessing vgg_preprocessing inception_preprocessing name is_training =
        Inr (\<lambda>image output_height output_width kwargs.
               preprocess_image vgg_preprocessing image output_height output_width
                 is_training kwargs))
   \<and> (name \<in> {''inception_v3'', ''inception_resnet_v2'', ''xception'', ''xception_keras'',
               ''dception''} \<longrightarrow>
      get_preprocessing vgg_preprocessing inception_preprocessing name is_training =
        Inr (\<lambda>image output_height output_width kwargs.
               preprocess_image inception_preprocessing image output_height output_width
                 is_training kwargs))
   \<and> (name \<notin> {''vgg'', ''vgg_a'', ''vgg_16'', ''vgg_19'', ''ssd_300_vgg'', ''inception_v3'',
               ''inception_resnet_v2'', ''xception'', ''xception_keras'', ''dception''} \<longrightarrow>
      get_preprocessing vgg_preprocessing inception_preprocessing name is_training =
        Inl (ValueError (''Preprocessing name ['' @ name @ ''] was not recognized'')))"
  by (auto simp add: get_preprocessing_def preprocessing_fn_map_def)

theorem get_preprocessing_total_witness:
  "get_preprocessing
      \<lparr>preprocess_image = (\<lambda>i h w t k. if t then i + h + w + k else (0::nat))\<rparr>
      \<lparr>preprocess_image = (\<lambda>i h w t k. if t then i * h * w * k else (1::nat))\<rparr>
      ''ssd_300_vgg'' True
     = Inr (\<lambda>i h w k. i + h + w + k)
   \<and> get_preprocessing
      \<lparr>preprocess_image = (\<lambda>i h w t k. if t then i + h + w + k else (0::nat))\<rparr>
      \<lparr>preprocess_image = (\<lambda>i h w t k. if t then i * h * w * k else (1::nat))\<rparr>
      ''xception'' False
     = Inr (\<lambda>i h w k. 1)
   \<and> get_preprocessing
      \<lparr>preprocess_image = (\<lambda>i h w t k. if t then i + h + w + k else (0::nat))\<rparr>
      \<lparr>preprocess_image = (\<lambda>i h w t k. if t then i * h * w * k else (1::nat))\<rparr>
      ''VGG'' False
     = Inl (ValueError ''Preprocessing name [VGG] was not recognized'')"
  using
    get_preprocessing_total [of "''ssd_300_vgg''"
      "\<lparr>preprocess_image = (\<lambda>i h w t k. if t then i + h + w + k else (0::nat))\<rparr>"
      "\<lparr>preprocess_image = (\<lambda>i h w t k. if t then i * h * w * k else (1::nat))\<rparr>" True]
    get_preprocessing_total [of "''xception''"
      "\<lparr>preprocess_image = (\<lambda>i h w t k. if t then i + h + w + k else (0::nat))\<rparr>"
      "\<lparr>preprocess_image = (\<lambda>i h w t k. if t then i * h * w * k else (1::nat))\<rparr>" False]
    get_preprocessing_total [of "''VGG''"
      "\<lparr>preprocess_image = (\<lambda>i h w t k. if t then i + h + w + k else (0::nat))\<rparr>"
      "\<lparr>preprocess_image = (\<lambda>i h w t k. if t then i * h * w * k else (1::nat))\<rparr>" False]
  by simp

section \<open>Properties of the evaluation driver\<close>

subsection \<open>The number of batches\<close>




text \<open>
  The number computed is the number of evaluations the driver runs, after everything
  else has been constructed.
\<close>

lemma main_runs_num_batches:
  assumes "truthy_string (dataset_dir FLAGS)"
    and "get_dataset env (dataset_name FLAGS) (dataset_split_name FLAGS)
           (the (dataset_dir FLAGS)) = Inr num_samples"
    and "get_network env (model_name FLAGS) = Inr ()"
    and "get_preprocessing (vgg_module env) (inception_module env)
           (if truthy_string (preprocessing_name FLAGS)
            then the (preprocessing_name FLAGS) else model_name FLAGS) False = Inr f"
    and "num_batches FLAGS num_samples = Inr n"
  shows "fst (main env FLAGS) =
    [GlobalStep, Dataset, Network, PreprocessingFn, DataProvider,
     BatchQueue, Predictions, Detections, Matching, Metrics, EvaluateOnce n]"
  using assms by (simp add: main_def)

lemma main_with_dataset_dir:
  "main \<lparr>get_dataset = (\<lambda>n s d. Inr 950), get_network = (\<lambda>n. Inr ()),
         vgg_module = \<lparr>preprocess_image = (\<lambda>i h w t k. (i::nat))\<rparr>,
         inception_module = \<lparr>preprocess_image = (\<lambda>i (h::nat) (w::nat) t (k::nat). i)\<rparr>\<rparr>
     (default_flags\<lparr>dataset_dir := Some ''/data/voc'', model_name := ''ssd_300_vgg''\<rparr>) =
    ([GlobalStep, Dataset, Network, PreprocessingFn, DataProvider,
      BatchQueue, Predictions, Detections, Matching, Metrics, EvaluateOnce 10], Inr ())"
  by (simp add: main_def truthy_string_def default_flags_def get_preprocessing_def
      preprocessing_fn_map_def num_batches_def truthy_int_def)

subsection \<open>The mandatory dataset directory\<close>

text \<open>
  The message of the exception is longer than the words
  \<^verbatim>\<open>You must supply the dataset directory\<close>: it goes on to name the flag.
\<close>

theorem main_message_counterexample:
  "snd (main \<lparr>get_dataset = (\<lambda>n s d. Inr 950), get_network = (\<lambda>n. Inr ()),
         vgg_module = \<lparr>preprocess_image = (\<lambda>i h w t k. (i::nat))\<rparr>,
         inception_module = \<lparr>preprocess_image = (\<lambda>i (h::nat) (w::nat) t (k::nat). i)\<rparr>\<rparr>
     default_flags) \<noteq> Inl (ValueError ''You must supply the dataset directory'')"
  by (simp add: main_def truthy_string_def default_flags_def)

text \<open>
  Claim C10, amended. If the dataset directory is absent, the driver fails at once with a
  \<^verbatim>\<open>ValueError\<close> whose message is
  \<^verbatim>\<open>You must supply the dataset directory with --dataset_dir\<close>, and nothing has been
  constructed: no dataset, no model, no metric.
\<close>

theorem main_requires_dataset_dir:
  "dataset_dir FLAGS = None \<Longrightarrow>
     main env FLAGS =
       ([], Inl (ValueError ''You must supply the dataset directory with --dataset_dir''))"
  by (simp add: main_def truthy_string_def)

theorem main_requires_dataset_dir_witness:
  "dataset_dir default_flags = None \<and>
   main \<lparr>get_dataset = (\<lambda>n s d. Inr 950), get_network = (\<lambda>n. Inr ()),
         vgg_module = \<lparr>preprocess_image = (\<lambda>i h w t k. (i::nat))\<rparr>,
         inception_module = \<lparr>preprocess_image = (\<lambda>i (h::nat) (w::nat) t (k::nat). i)\<rparr>\<rparr>
     default_flags =
       ([], Inl (ValueError ''You must supply the dataset directory with --dataset_dir''))"
proof -
  have h: "dataset_dir default_flags = None" by (simp add: default_flags_def)
  show ?thesis using h main_requires_dataset_dir [OF h] by simp
qed

end
